theory Spec2Isabelle
  imports Complex_Main "HOL-Library.AList"
begin

section \<open>The training driver of NLP-Transformers (src/train/train.py)\<close>

text \<open>
  The module drives the training of a sequence-to-sequence network with PyTorch. The
  library objects it calls (network, optimizer, scheduler, gradient scaler, dataset,
  checkpoint store, process group) are not part of the module: each call to one of them
  is recorded as an \<open>event\<close>, in the order the source makes the calls, and the values
  they return are fields of an environment record. Python integers are \<open>int\<close>, Python
  floats are abstracted to \<open>real\<close> with an explicit not-a-number value, and the
  \<open>ZeroDivisionError\<close> of \<open>%\<close> and \<open>/\<close> is a result of the model.
\<close>

subsection \<open>Tensors of token ids\<close>

type_synonym tensor2 = "int list list"
type_synonym logits = "real list list list"

text \<open>\<open>t.size(0)\<close> and \<open>t.size(1)\<close> of a two-dimensional tensor, given by its rows.\<close>

definition size0 :: "'a list list \<Rightarrow> int" where
  "size0 t = int (length t)"

definition size1 :: "'a list list \<Rightarrow> int" where
  "size1 t = (case t of [] \<Rightarrow> 0 | r # _ \<Rightarrow> int (length r))"

text \<open>\<open>labels[:, :-1]\<close> and \<open>labels[:, 1:]\<close>: slicing an empty row gives an empty row.\<close>

definition drop_last_column :: "tensor2 \<Rightarrow> tensor2" where
  "drop_last_column labels = map butlast labels"

definition drop_first_column :: "tensor2 \<Rightarrow> tensor2" where
  "drop_first_column labels = map tl labels"

text \<open>\<open>t == PAD_IDX\<close>, elementwise.\<close>

definition eq_scalar :: "tensor2 \<Rightarrow> int \<Rightarrow> bool list list" where
  "eq_scalar t v = map (map (\<lambda>x. x = v)) t"

subsection \<open>Formatting an integer, as an f-string does\<close>

definition digit_char :: "nat \<Rightarrow> char" where
  "digit_char d = char_of (48 + d)"

fun str_nat :: "nat \<Rightarrow> string" where
  "str_nat n = (if n < 10 then [digit_char n] else str_nat (n div 10) @ [digit_char (n mod 10)])"

declare str_nat.simps [simp del]

definition str_int :: "int \<Rightarrow> string" where
  "str_int i = (if i < 0 then CHR ''-'' # str_nat (nat (- i)) else str_nat (nat i))"

subsection \<open>Process roles, devices and the data pipeline\<close>

text \<open>\<^verbatim>\<open>
  def is_main_process(rank, world_size):
      return (rank == -1 and world_size == -1) or (rank == 0 and world_size > 0)
\<close>\<close>

definition is_main_process :: "int \<Rightarrow> int \<Rightarrow> bool" where
  "is_main_process rank world_size \<longleftrightarrow>
     (rank = - 1 \<and> world_size = - 1) \<or> (rank = 0 \<and> world_size > 0)"

text \<open>
  A \<open>torch.device\<close> is represented by the string it is built from; its \<open>type\<close> is
  the part before the colon. Line 100:
  \<^verbatim>\<open>device = T.device(f"cuda:{rank}" if rank != -1 else device)\<close>
\<close>

type_synonym device = string

definition device_type :: "device \<Rightarrow> string" where
  "device_type d = takeWhile (\<lambda>c. c \<noteq> CHR '':'') d"

definition select_device :: "int \<Rightarrow> string \<Rightarrow> device" where
  "select_device rank device = (if rank \<noteq> - 1 then ''cuda:'' @ str_int rank else device)"

text \<open>
  \<open>prepare_dataloader\<close>: the dataset is built with the two length caps, a
  \<open>DistributedSampler(dataset, world_size, rank)\<close> is used when both \<open>rank\<close> and
  \<open>world_size\<close> differ from \<open>-1\<close>, and the loader wraps both.
\<close>

record dataset =
  max_context_length :: int
  max_sentence_length :: int

record dataloader =
  dl_dataset :: dataset
  dl_batch_size :: int
  dl_sampler :: "(int \<times> int) option"

definition CornellMovieDataset :: "int \<Rightarrow> int \<Rightarrow> dataset" where
  "CornellMovieDataset max_context max_sentence =
     \<lparr>max_context_length = max_context, max_sentence_length = max_sentence\<rparr>"

definition prepare_dataloader :: "int \<Rightarrow> int \<Rightarrow> int \<Rightarrow> int \<Rightarrow> dataloader" where
  "prepare_dataloader batch_size max_seq_len rank world_size =
     (let max_sentence_len = max_seq_len div 4;
          max_passage_len = max_seq_len;
          ds = CornellMovieDataset max_passage_len max_sentence_len;
          sampler = (if rank \<noteq> - 1 \<and> world_size \<noteq> - 1 then Some (world_size, rank) else None)
      in \<lparr>dl_dataset = ds, dl_batch_size = batch_size, dl_sampler = sampler\<rparr>)"

subsection \<open>Loggers\<close>

text \<open>
  \<open>prepare_logger\<close> sets the level \<open>logging.INFO\<close> (20) for the main process and
  \<open>logging.CRITICAL\<close> (50) for every other worker; \<open>logger.info\<close> emits a record
  only when the level admits \<open>INFO\<close>.
\<close>

datatype pyfloat = Num real | NaN

datatype log_msg =
    MsgParameters nat
  | MsgCheckpointExists
  | MsgNewModel
  | MsgSaving
  | MsgMetrics real pyfloat

record logger =
  level :: int

definition INFO :: int where "INFO = 20"
definition CRITICAL :: int where "CRITICAL = 50"

definition prepare_logger :: "int \<Rightarrow> int \<Rightarrow> logger" where
  "prepare_logger rank world_size =
     (if is_main_process rank world_size then \<lparr>level = INFO\<rparr> else \<lparr>level = CRITICAL\<rparr>)"

subsection \<open>Calls into the libraries\<close>

type_synonym state_dict = nat

datatype component = Network | Optimizer | Scheduler | Scaler

datatype event =
    NewNetwork "(string \<times> real) list" device
  | InitProcessGroup int int
  | WrapDDP int
  | LogInfo log_msg
  | NewAdam real real
  | NewScheduler int
  | NewScaler
  | LoadStateDict component state_dict
  | Tqdm int bool
  | Forward bool
  | ScaleBackward
  | ScalerStep
  | ScalerUpdate
  | LossBackward
  | OptimizerStep
  | ZeroGrad
  | SchedulerStep
  | SaveCheckpoint string int
  | SaveModel string
  | DestroyProcessGroup

datatype error = ZeroDivisionError

definition logger_info :: "logger \<Rightarrow> log_msg \<Rightarrow> event list" where
  "logger_info lg msg = (if level lg \<le> INFO then [LogInfo msg] else [])"

text \<open>
  \<open>prepare_network\<close>: the network is built and moved to the device; with both
  \<open>rank\<close> and \<open>world_size\<close> different from \<open>-1\<close> the process group is joined
  (\<open>setup_distributed\<close>) and the network is wrapped for gradient synchronisation.
\<close>

definition setup_distributed :: "int \<Rightarrow> int \<Rightarrow> event list" where
  "setup_distributed rank world_size = [InitProcessGroup rank world_size]"

definition cleanup_distibuted :: "event list" where
  "cleanup_distibuted = [DestroyProcessGroup]"

definition prepare_network :: "(string \<times> real) list \<Rightarrow> int \<Rightarrow> int \<Rightarrow> device \<Rightarrow> event list" where
  "prepare_network model_kwargs rank world_size dev =
     NewNetwork model_kwargs dev #
     (if rank \<noteq> - 1 \<and> world_size \<noteq> - 1
      then setup_distributed rank world_size @ [WrapDDP rank] else [])"

subsection \<open>Configuration and environment\<close>

record config =
  model_name :: string
  epochs :: int
  batch_size :: int
  learning_rate :: real
  weight_decay :: real
  max_seq_len :: int
  checkpoint_interval :: int
  device :: string
  model_kwargs :: "(string \<times> real) list"
  rank :: int
  world_size :: int

text \<open>The dictionary \<open>load_checkpoint\<close> returns, with the five keys the loop reads.\<close>

record checkpoint =
  ck_network :: state_dict
  ck_optimizer :: state_dict
  ck_scheduler :: state_dict
  ck_scaler :: state_dict
  ck_epochs :: int

record masks =
  tgt_mask :: "bool list list"
  src_key_padding_mask :: "bool list list"
  tgt_key_padding_mask :: "bool list list"

text \<open>
  What the collaborators outside the module return. The loader is built without
  shuffling and the source never calls \<open>set_epoch\<close>, so it yields the same batches in
  every epoch; \<open>len(dataloader)\<close> is their number. The network is a black box from the
  batch and its masks to logits of shape (batch, decoder length, vocabulary); its
  weights change with every step, so it is indexed by epoch and batch index as well.
  \<open>nll row t\<close> is the cross-entropy of one position: the negative log-probability of
  class \<open>t\<close> under the logits \<open>row\<close>.
\<close>

record env =
  PAD_IDX :: int
  vocab_len :: nat
  num_parameters :: nat
  stored_checkpoint :: "checkpoint option"
  loader_batches :: "dataloader \<Rightarrow> (tensor2 \<times> tensor2) list"
  make_look_ahead_mask :: "int \<Rightarrow> device \<Rightarrow> bool list list"
  network_out :: "int \<Rightarrow> nat \<Rightarrow> tensor2 \<Rightarrow> tensor2 \<Rightarrow> masks \<Rightarrow> logits"
  nll :: "real list \<Rightarrow> int \<Rightarrow> real"

subsection \<open>Loss and accuracy of one batch\<close>

text \<open>
  \<open>nn.CrossEntropyLoss(ignore_index)\<close> with the default mean reduction: the mean of the
  per-position losses over the positions whose target is not \<open>ignore_index\<close>; with no
  such position the result is not a number.
\<close>

definition cross_entropy ::
  "(real list \<Rightarrow> int \<Rightarrow> real) \<Rightarrow> int \<Rightarrow> real list list \<Rightarrow> int list \<Rightarrow> pyfloat" where
  "cross_entropy f ignore_index input target =
     (let kept = filter (\<lambda>(row, t). t \<noteq> ignore_index) (zip input target)
      in if kept = [] then NaN
         else Num (sum_list (map (\<lambda>(row, t). f row t) kept) / real (length kept)))"

definition fadd :: "pyfloat \<Rightarrow> pyfloat \<Rightarrow> pyfloat" where
  "fadd a b = (case (a, b) of (Num x, Num y) \<Rightarrow> Num (x + y) | _ \<Rightarrow> NaN)"

text \<open>\<open>T.argmax(y, dim=-1)\<close>: the index of the first maximal entry of each row.\<close>

fun argmax_from :: "nat \<Rightarrow> real \<Rightarrow> nat \<Rightarrow> real list \<Rightarrow> nat" where
  "argmax_from best bv i [] = best"
| "argmax_from best bv i (x # xs) =
     (if x > bv then argmax_from i x (Suc i) xs else argmax_from best bv (Suc i) xs)"

definition argmax :: "real list \<Rightarrow> nat" where
  "argmax row = (case row of [] \<Rightarrow> 0 | x # xs \<Rightarrow> argmax_from 0 x 1 xs)"

text \<open>\<open>T.sum(T.argmax(y, dim=-1) == labels_expected).item()\<close>\<close>

definition count_correct :: "logits \<Rightarrow> tensor2 \<Rightarrow> int" where
  "count_correct y labels_expected =
     sum_list (map (\<lambda>(yr, lr). int (length (filter (\<lambda>(v, t). int (argmax v) = t) (zip yr lr))))
                   (zip y labels_expected))"

record metrics =
  num_correct :: int
  num_total :: int
  total_loss :: pyfloat

subsection \<open>The body of the batch loop (lines 157 to 195)\<close>

definition backward_and_step :: "device \<Rightarrow> event list" where
  "backward_and_step dev =
     (if device_type dev = ''cuda''
      then [ScaleBackward, ScalerStep, ScalerUpdate]
      else [LossBackward, OptimizerStep])"

definition maybe_checkpoint ::
  "config \<Rightarrow> logger \<Rightarrow> int \<Rightarrow> nat \<Rightarrow> event list \<times> error option" where
  "maybe_checkpoint cfg lg epoch batch_idx =
     (if checkpoint_interval cfg = 0 then ([], Some ZeroDivisionError)
      else if int batch_idx mod checkpoint_interval cfg = 0
      then (logger_info lg MsgSaving @ [SaveCheckpoint (model_name cfg) epoch], None)
      else ([], None))"

definition train_batch ::
  "env \<Rightarrow> config \<Rightarrow> device \<Rightarrow> logger \<Rightarrow> int \<Rightarrow> nat \<Rightarrow> tensor2 \<times> tensor2 \<Rightarrow> metrics
     \<Rightarrow> event list \<times> (error + metrics)" where
  "train_batch ev cfg dev lg epoch batch_idx batch m =
     (let (prompts, labels) = batch;
          labels_input = drop_last_column labels;
          labels_expected = drop_first_column labels;
          mk = \<lparr>tgt_mask = make_look_ahead_mask ev (size1 labels_input) dev,
                src_key_padding_mask = eq_scalar prompts (PAD_IDX ev),
                tgt_key_padding_mask = eq_scalar labels_input (PAD_IDX ev)\<rparr>;
          y = network_out ev epoch batch_idx prompts labels_input mk;
          loss = cross_entropy (nll ev) (PAD_IDX ev) (concat y) (concat labels_expected);
          m1 = m\<lparr>total_loss := fadd (total_loss m) loss\<rparr>;
          steps = Forward (device_type dev = ''cuda'') # backward_and_step dev
                  @ [ZeroGrad, SchedulerStep];
          m2 = m1\<lparr>num_correct := num_correct m1 + count_correct y labels_expected,
                  num_total := num_total m1 + size0 prompts * size1 prompts\<rparr>
      in case maybe_checkpoint cfg lg epoch batch_idx of
           (saves, Some e) \<Rightarrow> (steps @ saves, Inl e)
         | (saves, None) \<Rightarrow> (steps @ saves, Inr m2))"

text \<open>
  \<open>for batch_idx, (prompts, labels) in enumerate(...)\<close>: the events of each iteration,
  in order, and the accumulators after the last one (or the exception that ended the
  loop).
\<close>

fun batch_loop ::
  "env \<Rightarrow> config \<Rightarrow> device \<Rightarrow> logger \<Rightarrow> int \<Rightarrow> nat \<Rightarrow> (tensor2 \<times> tensor2) list \<Rightarrow> metrics
     \<Rightarrow> event list list \<times> (error + metrics)" where
  "batch_loop ev cfg dev lg epoch batch_idx [] m = ([], Inr m)"
| "batch_loop ev cfg dev lg epoch batch_idx (b # bs) m =
     (case train_batch ev cfg dev lg epoch batch_idx b m of
        (evs, Inl e) \<Rightarrow> ([evs], Inl e)
      | (evs, Inr m') \<Rightarrow>
          (case batch_loop ev cfg dev lg epoch (Suc batch_idx) bs m' of
             (rest, r) \<Rightarrow> (evs # rest, r)))"

subsection \<open>One epoch and the whole loop (lines 99 to 204)\<close>

text \<open>\<open>range(start, stop)\<close> on integers.\<close>

definition py_range :: "int \<Rightarrow> int \<Rightarrow> int list" where
  "py_range start stop = [start..stop - 1]"

record epoch_run =
  er_epoch :: int
  er_open :: "event list"
  er_iterations :: "event list list"
  er_close :: "event list"

text \<open>
  The accumulators start at zero in every epoch. After the last batch,
  \<open>total_loss / len(dataloader)\<close> and then \<open>num_correct / num_total\<close> are computed;
  either division raises when its divisor is zero.
\<close>

definition fdiv_len :: "pyfloat \<Rightarrow> nat \<Rightarrow> pyfloat" where
  "fdiv_len a n = (case a of Num x \<Rightarrow> Num (x / real n) | NaN \<Rightarrow> NaN)"

definition run_epoch ::
  "env \<Rightarrow> config \<Rightarrow> device \<Rightarrow> logger \<Rightarrow> dataloader \<Rightarrow> int \<Rightarrow> epoch_run \<times> error option" where
  "run_epoch ev cfg dev lg dl epoch =
     (let bs = loader_batches ev dl;
          opening = [Tqdm epoch (\<not> is_main_process (rank cfg) (world_size cfg))];
          m0 = \<lparr>num_correct = 0, num_total = 0, total_loss = Num 0\<rparr>
      in case batch_loop ev cfg dev lg epoch 0 bs m0 of
           (its, Inl e) \<Rightarrow>
             (\<lparr>er_epoch = epoch, er_open = opening, er_iterations = its, er_close = []\<rparr>, Some e)
         | (its, Inr m) \<Rightarrow>
             if length bs = 0 \<or> num_total m = 0
             then (\<lparr>er_epoch = epoch, er_open = opening, er_iterations = its, er_close = []\<rparr>,
                   Some ZeroDivisionError)
             else
               (let avg_loss = fdiv_len (total_loss m) (length bs);
                    accuracy = real_of_int (num_correct m) / real_of_int (num_total m)
                in (\<lparr>er_epoch = epoch, er_open = opening, er_iterations = its,
                      er_close = logger_info lg (MsgMetrics accuracy avg_loss)\<rparr>, None)))"

fun epoch_loop ::
  "env \<Rightarrow> config \<Rightarrow> device \<Rightarrow> logger \<Rightarrow> dataloader \<Rightarrow> int list \<Rightarrow> epoch_run list \<times> error option"
  where
  "epoch_loop ev cfg dev lg dl [] = ([], None)"
| "epoch_loop ev cfg dev lg dl (epoch # rest) =
     (case run_epoch ev cfg dev lg dl epoch of
        (er, Some e) \<Rightarrow> ([er], Some e)
      | (er, None) \<Rightarrow>
          (case epoch_loop ev cfg dev lg dl rest of (ers, r) \<Rightarrow> (er # ers, r)))"

text \<open>Lines 133 to 143: the four states are reloaded and the epoch counter is read.\<close>

definition restore :: "env \<Rightarrow> logger \<Rightarrow> event list \<times> int" where
  "restore ev lg =
     (case stored_checkpoint ev of
        Some x \<Rightarrow>
          (logger_info lg MsgCheckpointExists
             @ [LoadStateDict Network (ck_network x), LoadStateDict Optimizer (ck_optimizer x),
                LoadStateDict Scheduler (ck_scheduler x), LoadStateDict Scaler (ck_scaler x)],
           ck_epochs x)
      | None \<Rightarrow> (logger_info lg MsgNewModel, 0))"

record run =
  setup_events :: "event list"
  epoch_runs :: "epoch_run list"
  final_events :: "event list"
  raised :: "error option"

definition training_loop :: "env \<Rightarrow> config \<Rightarrow> run" where
  "training_loop ev cfg =
     (let lg = prepare_logger (rank cfg) (world_size cfg);
          dev = select_device (rank cfg) (device cfg);
          dl = prepare_dataloader (batch_size cfg) (max_seq_len cfg) (rank cfg) (world_size cfg);
          net = prepare_network
                  (AList.update ''num_embed'' (real (vocab_len ev)) (model_kwargs cfg))
                  (rank cfg) (world_size cfg) dev;
          built = net @ logger_info lg (MsgParameters (num_parameters ev))
                  @ [NewAdam (learning_rate cfg) (weight_decay cfg), NewScheduler 20, NewScaler];
          (loaded, starting_epochs) = restore ev lg
      in case epoch_loop ev cfg dev lg dl
                (py_range (starting_epochs + 1) (starting_epochs + epochs cfg + 1)) of
           (ers, Some e) \<Rightarrow>
             \<lparr>setup_events = built @ loaded, epoch_runs = ers, final_events = [],
              raised = Some e\<rparr>
         | (ers, None) \<Rightarrow>
             \<lparr>setup_events = built @ loaded, epoch_runs = ers,
              final_events = SaveModel (model_name cfg) # cleanup_distibuted,
              raised = None\<rparr>)"

text \<open>The whole sequence of calls of a run, flattened.\<close>

definition epoch_trace :: "epoch_run \<Rightarrow> event list" where
  "epoch_trace er = er_open er @ concat (er_iterations er) @ er_close er"

definition trace :: "run \<Rightarrow> event list" where
  "trace r = setup_events r @ concat (map epoch_trace (epoch_runs r)) @ final_events r"

subsection \<open>Observing a run\<close>

text \<open>Classes of calls, used to read a sequence of calls.\<close>

fun is_save :: "event \<Rightarrow> bool" where
  "is_save (SaveCheckpoint n e) = True"
| "is_save _ = False"

text \<open>
  The calls of one iteration of the batch loop depend on the device, the logger, the
  epoch and the batch index only, not on the data of the batch.
\<close>

definition iteration_events :: "config \<Rightarrow> device \<Rightarrow> logger \<Rightarrow> int \<Rightarrow> nat \<Rightarrow> event list" where
  "iteration_events cfg dev lg epoch batch_idx =
     Forward (device_type dev = ''cuda'') # backward_and_step dev @ [ZeroGrad, SchedulerStep]
       @ fst (maybe_checkpoint cfg lg epoch batch_idx)"


fun is_load :: "event \<Rightarrow> bool" where
  "is_load (LoadStateDict c s) = True"
| "is_load _ = False"

fun is_group :: "event \<Rightarrow> bool" where
  "is_group (InitProcessGroup r w) = True"
| "is_group DestroyProcessGroup = True"
| "is_group _ = False"

fun is_optim :: "event \<Rightarrow> bool" where
  "is_optim ScaleBackward = True"
| "is_optim ScalerStep = True"
| "is_optim ScalerUpdate = True"
| "is_optim LossBackward = True"
| "is_optim OptimizerStep = True"
| "is_optim ZeroGrad = True"
| "is_optim _ = False"

abbreviation worker_device :: "config \<Rightarrow> device" where
  "worker_device cfg \<equiv> select_device (rank cfg) (device cfg)"

abbreviation worker_logger :: "config \<Rightarrow> logger" where
  "worker_logger cfg \<equiv> prepare_logger (rank cfg) (world_size cfg)"

abbreviation worker_loader :: "config \<Rightarrow> dataloader" where
  "worker_loader cfg \<equiv>
     prepare_dataloader (batch_size cfg) (max_seq_len cfg) (rank cfg) (world_size cfg)"


subsection \<open>A small run\<close>

text \<open>
  One batch of one prompt of sixteen tokens and one label row of four tokens (decoder
  length three, the last expected label being padding), as \<open>max_seq_len = 16\<close> gives;
  the network predicts every expected label, the padding included.
\<close>

definition demo_batch :: "tensor2 \<times> tensor2" where
  "demo_batch = ([[5, 6, 7, 8, 9, 5, 6, 7, 8, 9, 5, 6, 0, 0, 0, 0]], [[1, 2, 3, 0]])"

definition demo_logits :: logits where
  "demo_logits = [[[0, 0, 1, 0], [0, 0, 0, 1], [1, 0, 0, 0]]]"

definition demo_env :: env where
  "demo_env = \<lparr>PAD_IDX = 0, vocab_len = 4, num_parameters = 10,
     stored_checkpoint = Some \<lparr>ck_network = 1, ck_optimizer = 2, ck_scheduler = 3,
                               ck_scaler = 4, ck_epochs = 5\<rparr>,
     loader_batches = (\<lambda>dl. [demo_batch, demo_batch, demo_batch]),
     make_look_ahead_mask = (\<lambda>n d. map (\<lambda>i. map (\<lambda>j. i < j) [0..<nat n]) [0..<nat n]),
     network_out = (\<lambda>epoch idx prompts labels_input mk. demo_logits),
     nll = (\<lambda>row t. 2 ^ nat t / 4)\<rparr>"

definition demo_cfg :: config where
  "demo_cfg = \<lparr>model_name = ''chatbot'', epochs = 2, batch_size = 1, learning_rate = 1 / 1000,
     weight_decay = 0, max_seq_len = 16, checkpoint_interval = 2, device = ''cpu'',
     model_kwargs = [], rank = - 1, world_size = - 1\<rparr>"


text \<open>The same run as worker 1 of 2.\<close>

definition demo_worker :: config where
  "demo_worker = demo_cfg\<lparr>rank := 1, world_size := 2\<rparr>"


section \<open>Properties\<close>

subsection \<open>Structure of the loops\<close>

lemma train_batch_events:
  "fst (train_batch ev cfg dev lg epoch i b m) = iteration_events cfg dev lg epoch i"
  by (cases b) (simp add: train_batch_def iteration_events_def Let_def split: prod.splits option.splits)

lemma train_batch_ok:
  "checkpoint_interval cfg \<noteq> 0 \<Longrightarrow> \<exists>m'. snd (train_batch ev cfg dev lg epoch i b m) = Inr m'"
  by (cases b) (simp add: train_batch_def maybe_checkpoint_def Let_def split: prod.splits option.splits)

lemma batch_loop_Cons_fst:
  "fst (batch_loop ev cfg dev lg epoch i (b # bs) m) =
     iteration_events cfg dev lg epoch i #
     (case snd (train_batch ev cfg dev lg epoch i b m) of
        Inl e \<Rightarrow> []
      | Inr m' \<Rightarrow> fst (batch_loop ev cfg dev lg epoch (Suc i) bs m'))"
proof -
  obtain evs r where tb: "train_batch ev cfg dev lg epoch i b m = (evs, r)"
    by (cases "train_batch ev cfg dev lg epoch i b m")
  with train_batch_events [of ev cfg dev lg epoch i b m]
  have evs: "evs = iteration_events cfg dev lg epoch i" by simp
  show ?thesis
  proof (cases r)
    case (Inl e)
    with tb evs show ?thesis by simp
  next
    case (Inr m')
    obtain rest r' where "batch_loop ev cfg dev lg epoch (Suc i) bs m' = (rest, r')"
      by (cases "batch_loop ev cfg dev lg epoch (Suc i) bs m'")
    with tb evs Inr show ?thesis by simp
  qed
qed

lemma batch_loop_iterations:
  "checkpoint_interval cfg \<noteq> 0 \<Longrightarrow>
   fst (batch_loop ev cfg dev lg epoch i bs m) = map (iteration_events cfg dev lg epoch) [i..<i + length bs]"
proof (induction bs arbitrary: i m)
  case Nil
  then show ?case by simp
next
  case (Cons b bs)
  obtain m' where m': "snd (train_batch ev cfg dev lg epoch i b m) = Inr m'"
    using train_batch_ok [OF Cons.prems] by blast
  have ih: "fst (batch_loop ev cfg dev lg epoch (Suc i) bs m') =
        map (iteration_events cfg dev lg epoch) [Suc i..<Suc i + length bs]"
    using Cons.IH [OF Cons.prems] .
  have u: "[i..<i + length (b # bs)] = i # [Suc i..<Suc i + length bs]"
    using upt_conv_Cons [of i "i + length (b # bs)"] by simp
  have "fst (batch_loop ev cfg dev lg epoch i (b # bs) m) =
        iteration_events cfg dev lg epoch i # fst (batch_loop ev cfg dev lg epoch (Suc i) bs m')"
    by (simp add: batch_loop_Cons_fst m' del: batch_loop.simps)
  also have "\<dots> = iteration_events cfg dev lg epoch i
                    # map (iteration_events cfg dev lg epoch) [Suc i..<Suc i + length bs]"
    by (simp only: ih)
  also have "\<dots> = map (iteration_events cfg dev lg epoch) [i..<i + length (b # bs)]"
    by (simp only: u list.map)
  finally show ?case .
qed

lemma batch_loop_nth:
  "j < length (fst (batch_loop ev cfg dev lg epoch i bs m)) \<Longrightarrow>
   fst (batch_loop ev cfg dev lg epoch i bs m) ! j = iteration_events cfg dev lg epoch (i + j)"
proof (induction bs arbitrary: i j m)
  case Nil
  then show ?case by simp
next
  case (Cons b bs)
  show ?case
  proof (cases j)
    case 0
    then show ?thesis by (simp add: batch_loop_Cons_fst del: batch_loop.simps)
  next
    case (Suc j')
    show ?thesis
    proof (cases "snd (train_batch ev cfg dev lg epoch i b m)")
      case (Inl e)
      with Cons.prems Suc show ?thesis
        by (simp add: batch_loop_Cons_fst del: batch_loop.simps)
    next
      case (Inr m')
      with Cons.prems Suc have "j' < length (fst (batch_loop ev cfg dev lg epoch (Suc i) bs m'))"
        by (simp add: batch_loop_Cons_fst del: batch_loop.simps)
      from Cons.IH [OF this] Suc Inr show ?thesis
        by (simp add: batch_loop_Cons_fst del: batch_loop.simps)
    qed
  qed
qed

lemma batch_loop_length:
  "length (fst (batch_loop ev cfg dev lg epoch i bs m)) \<le> length bs"
proof (induction bs arbitrary: i m)
  case Nil
  then show ?case by simp
next
  case (Cons b bs)
  then show ?case
    by (simp add: batch_loop_Cons_fst del: batch_loop.simps split: sum.splits)
qed

lemma run_epoch_fields:
  "er_epoch (fst (run_epoch ev cfg dev lg dl epoch)) = epoch"
  "er_open (fst (run_epoch ev cfg dev lg dl epoch)) =
     [Tqdm epoch (\<not> is_main_process (rank cfg) (world_size cfg))]"
  "er_iterations (fst (run_epoch ev cfg dev lg dl epoch)) =
     fst (batch_loop ev cfg dev lg epoch 0 (loader_batches ev dl)
            \<lparr>num_correct = 0, num_total = 0, total_loss = Num 0\<rparr>)"
  by (simp_all add: run_epoch_def Let_def split: prod.splits sum.splits)

lemma run_epoch_close:
  "er_close (fst (run_epoch ev cfg dev lg dl epoch)) = [] \<or>
   (\<exists>msg. er_close (fst (run_epoch ev cfg dev lg dl epoch)) = [LogInfo msg])"
  by (simp add: run_epoch_def Let_def logger_info_def split: prod.splits sum.splits)

lemma epoch_loop_Cons_fst:
  "fst (epoch_loop ev cfg dev lg dl (e # es)) =
     fst (run_epoch ev cfg dev lg dl e) #
     (case snd (run_epoch ev cfg dev lg dl e) of
        Some x \<Rightarrow> []
      | None \<Rightarrow> fst (epoch_loop ev cfg dev lg dl es))"
  by (simp split: prod.splits option.splits)

lemma epoch_loop_Cons_snd:
  "snd (epoch_loop ev cfg dev lg dl (e # es)) =
     (case snd (run_epoch ev cfg dev lg dl e) of
        Some x \<Rightarrow> Some x
      | None \<Rightarrow> snd (epoch_loop ev cfg dev lg dl es))"
  by (simp split: prod.splits option.splits)

lemma epoch_loop_member:
  "er \<in> set (fst (epoch_loop ev cfg dev lg dl es)) \<Longrightarrow>
   \<exists>e \<in> set es. er = fst (run_epoch ev cfg dev lg dl e)"
proof (induction es)
  case Nil
  then show ?case by simp
next
  case (Cons e es)
  then show ?case
    by (auto simp add: epoch_loop_Cons_fst simp del: epoch_loop.simps split: option.splits)
qed

lemma epoch_loop_epochs:
  "map er_epoch (fst (epoch_loop ev cfg dev lg dl es)) =
     take (length (fst (epoch_loop ev cfg dev lg dl es))) es"
proof (induction es)
  case Nil
  then show ?case by simp
next
  case (Cons e es)
  then show ?case
    by (simp add: epoch_loop_Cons_fst run_epoch_fields del: epoch_loop.simps split: option.splits)
qed

lemma epoch_loop_complete:
  "snd (epoch_loop ev cfg dev lg dl es) = None \<Longrightarrow>
   length (fst (epoch_loop ev cfg dev lg dl es)) = length es"
proof (induction es)
  case Nil
  then show ?case by simp
next
  case (Cons e es)
  then show ?case
    by (simp add: epoch_loop_Cons_fst epoch_loop_Cons_snd del: epoch_loop.simps
          split: option.splits)
qed

lemma training_loop_fields:
  "epoch_runs (training_loop ev cfg) =
     fst (epoch_loop ev cfg (select_device (rank cfg) (device cfg))
            (prepare_logger (rank cfg) (world_size cfg))
            (prepare_dataloader (batch_size cfg) (max_seq_len cfg) (rank cfg) (world_size cfg))
            (py_range (snd (restore ev (prepare_logger (rank cfg) (world_size cfg))) + 1)
               (snd (restore ev (prepare_logger (rank cfg) (world_size cfg))) + epochs cfg + 1)))"
  "raised (training_loop ev cfg) =
     snd (epoch_loop ev cfg (select_device (rank cfg) (device cfg))
            (prepare_logger (rank cfg) (world_size cfg))
            (prepare_dataloader (batch_size cfg) (max_seq_len cfg) (rank cfg) (world_size cfg))
            (py_range (snd (restore ev (prepare_logger (rank cfg) (world_size cfg))) + 1)
               (snd (restore ev (prepare_logger (rank cfg) (world_size cfg))) + epochs cfg + 1)))"
  "setup_events (training_loop ev cfg) =
     prepare_network (AList.update ''num_embed'' (real (vocab_len ev)) (model_kwargs cfg))
       (rank cfg) (world_size cfg) (select_device (rank cfg) (device cfg))
     @ logger_info (prepare_logger (rank cfg) (world_size cfg)) (MsgParameters (num_parameters ev))
     @ [NewAdam (learning_rate cfg) (weight_decay cfg), NewScheduler 20, NewScaler]
     @ fst (restore ev (prepare_logger (rank cfg) (world_size cfg)))"
  "final_events (training_loop ev cfg) =
     (case raised (training_loop ev cfg) of
        None \<Rightarrow> [SaveModel (model_name cfg), DestroyProcessGroup]
      | Some e \<Rightarrow> [])"
  by (simp_all add: training_loop_def Let_def cleanup_distibuted_def
        split: prod.splits option.splits)

lemma run_member:
  assumes "er \<in> set (epoch_runs (training_loop ev cfg))"
  obtains e where
    "er = fst (run_epoch ev cfg (worker_device cfg) (worker_logger cfg) (worker_loader cfg) e)"
  using assms epoch_loop_member unfolding training_loop_fields by blast

lemma run_iteration_nth:
  assumes "er \<in> set (epoch_runs (training_loop ev cfg))" and "i < length (er_iterations er)"
  shows "er_iterations er ! i =
           iteration_events cfg (worker_device cfg) (worker_logger cfg) (er_epoch er) i"
proof -
  from assms(1) obtain e where
    er: "er = fst (run_epoch ev cfg (worker_device cfg) (worker_logger cfg) (worker_loader cfg) e)"
    by (rule run_member)
  from assms(2) show ?thesis
    unfolding er run_epoch_fields using batch_loop_nth [where i = 0] by simp
qed

lemma run_iteration_count:
  assumes "er \<in> set (epoch_runs (training_loop ev cfg))" and "checkpoint_interval cfg \<noteq> 0"
  shows "length (er_iterations er) = length (loader_batches ev (worker_loader cfg))"
proof -
  from assms(1) obtain e where
    er: "er = fst (run_epoch ev cfg (worker_device cfg) (worker_logger cfg) (worker_loader cfg) e)"
    by (rule run_member)
  show ?thesis
    unfolding er run_epoch_fields by (simp add: batch_loop_iterations [OF assms(2)])
qed

lemma run_iteration_member:
  assumes "er \<in> set (epoch_runs (training_loop ev cfg))" and "it \<in> set (er_iterations er)"
  obtains i where
    "it = iteration_events cfg (worker_device cfg) (worker_logger cfg) (er_epoch er) i"
  using assms run_iteration_nth by (metis in_set_conv_nth)

lemma iteration_events_save:
  "filter is_save (iteration_events cfg dev lg epoch i) =
     (if checkpoint_interval cfg \<noteq> 0 \<and> int i mod checkpoint_interval cfg = 0
      then [SaveCheckpoint (model_name cfg) epoch] else [])"
  by (simp add: iteration_events_def backward_and_step_def maybe_checkpoint_def logger_info_def)

lemma iteration_events_optim:
  "filter is_optim (iteration_events cfg dev lg epoch i) =
     (if device_type dev = ''cuda'' then [ScaleBackward, ScalerStep, ScalerUpdate, ZeroGrad]
      else [LossBackward, OptimizerStep, ZeroGrad])"
  by (simp add: iteration_events_def backward_and_step_def maybe_checkpoint_def logger_info_def)

lemma iteration_events_sched:
  "count_list (iteration_events cfg dev lg epoch i) SchedulerStep = 1"
  by (simp add: iteration_events_def backward_and_step_def maybe_checkpoint_def logger_info_def)

lemma iteration_events_group:
  "filter is_group (iteration_events cfg dev lg epoch i) = []"
  by (simp add: iteration_events_def backward_and_step_def maybe_checkpoint_def logger_info_def)

lemma iteration_events_load:
  "filter is_load (iteration_events cfg dev lg epoch i) = []"
  by (simp add: iteration_events_def backward_and_step_def maybe_checkpoint_def logger_info_def)

subsection \<open>The small run, evaluated\<close>

lemma demo_run:
  "training_loop demo_env demo_cfg =
   \<lparr>setup_events =
      [NewNetwork [(''num_embed'', 4)] ''cpu'', LogInfo (MsgParameters 10),
       NewAdam (1 / 1000) 0, NewScheduler 20, NewScaler, LogInfo MsgCheckpointExists,
       LoadStateDict Network 1, LoadStateDict Optimizer 2, LoadStateDict Scheduler 3,
       LoadStateDict Scaler 4],
    epoch_runs =
      [\<lparr>er_epoch = 6, er_open = [Tqdm 6 False],
        er_iterations =
          [[Forward False, LossBackward, OptimizerStep, ZeroGrad, SchedulerStep,
            LogInfo MsgSaving, SaveCheckpoint ''chatbot'' 6],
           [Forward False, LossBackward, OptimizerStep, ZeroGrad, SchedulerStep],
           [Forward False, LossBackward, OptimizerStep, ZeroGrad, SchedulerStep,
            LogInfo MsgSaving, SaveCheckpoint ''chatbot'' 6]],
        er_close = [LogInfo (MsgMetrics (3 / 16) (Num (3 / 2)))]\<rparr>,
       \<lparr>er_epoch = 7, er_open = [Tqdm 7 False],
        er_iterations =
          [[Forward False, LossBackward, OptimizerStep, ZeroGrad, SchedulerStep,
            LogInfo MsgSaving, SaveCheckpoint ''chatbot'' 7],
           [Forward False, LossBackward, OptimizerStep, ZeroGrad, SchedulerStep],
           [Forward False, LossBackward, OptimizerStep, ZeroGrad, SchedulerStep,
            LogInfo MsgSaving, SaveCheckpoint ''chatbot'' 7]],
        er_close = [LogInfo (MsgMetrics (3 / 16) (Num (3 / 2)))]\<rparr>],
    final_events = [SaveModel ''chatbot'', DestroyProcessGroup],
    raised = None\<rparr>"
  by (simp add: training_loop_def run_epoch_def train_batch_def demo_env_def demo_cfg_def
        demo_batch_def demo_logits_def drop_last_column_def drop_first_column_def eq_scalar_def
        cross_entropy_def fadd_def fdiv_len_def count_correct_def argmax_def size0_def size1_def
        backward_and_step_def device_type_def maybe_checkpoint_def logger_info_def INFO_def
        Let_def py_range_def restore_def prepare_logger_def is_main_process_def
        select_device_def prepare_dataloader_def prepare_network_def setup_distributed_def
        cleanup_distibuted_def upto.simps)

lemma str_int_1: "str_int 1 = ''1''"
  by code_simp

lemma demo_worker_run:
  "training_loop demo_env demo_worker =
   \<lparr>setup_events =
      [NewNetwork [(''num_embed'', 4)] ''cuda:1'', InitProcessGroup 1 2, WrapDDP 1,
       NewAdam (1 / 1000) 0, NewScheduler 20, NewScaler,
       LoadStateDict Network 1, LoadStateDict Optimizer 2, LoadStateDict Scheduler 3,
       LoadStateDict Scaler 4],
    epoch_runs =
      [\<lparr>er_epoch = 6, er_open = [Tqdm 6 True],
        er_iterations =
          [[Forward True, ScaleBackward, ScalerStep, ScalerUpdate, ZeroGrad, SchedulerStep,
            SaveCheckpoint ''chatbot'' 6],
           [Forward True, ScaleBackward, ScalerStep, ScalerUpdate, ZeroGrad, SchedulerStep],
           [Forward True, ScaleBackward, ScalerStep, ScalerUpdate, ZeroGrad, SchedulerStep,
            SaveCheckpoint ''chatbot'' 6]],
        er_close = []\<rparr>,
       \<lparr>er_epoch = 7, er_open = [Tqdm 7 True],
        er_iterations =
          [[Forward True, ScaleBackward, ScalerStep, ScalerUpdate, ZeroGrad, SchedulerStep,
            SaveCheckpoint ''chatbot'' 7],
           [Forward True, ScaleBackward, ScalerStep, ScalerUpdate, ZeroGrad, SchedulerStep],
           [Forward True, ScaleBackward, ScalerStep, ScalerUpdate, ZeroGrad, SchedulerStep,
            SaveCheckpoint ''chatbot'' 7]],
        er_close = []\<rparr>],
    final_events = [SaveModel ''chatbot'', DestroyProcessGroup],
    raised = None\<rparr>"
  by (simp add: demo_worker_def training_loop_def run_epoch_def train_batch_def demo_env_def demo_cfg_def
        demo_batch_def demo_logits_def drop_last_column_def drop_first_column_def eq_scalar_def
        cross_entropy_def fadd_def fdiv_len_def count_correct_def argmax_def size0_def size1_def
        backward_and_step_def device_type_def maybe_checkpoint_def logger_info_def INFO_def CRITICAL_def
        Let_def py_range_def restore_def prepare_logger_def is_main_process_def
        select_device_def prepare_dataloader_def prepare_network_def setup_distributed_def
        cleanup_distibuted_def upto.simps str_int_1)

subsection \<open>Calls that occur only outside the epochs\<close>

lemma run_epoch_trace_group:
  "filter is_group (epoch_trace (fst (run_epoch ev cfg dev lg dl e))) = []"
proof -
  have "\<forall>it \<in> set (er_iterations (fst (run_epoch ev cfg dev lg dl e))). filter is_group it = []"
    unfolding run_epoch_fields
    by (metis batch_loop_nth in_set_conv_nth iteration_events_group)
  then have "filter is_group (concat (er_iterations (fst (run_epoch ev cfg dev lg dl e)))) = []"
    by (simp add: filter_concat)
  moreover have "filter is_group (er_close (fst (run_epoch ev cfg dev lg dl e))) = []"
    using run_epoch_close [of ev cfg dev lg dl e] by auto
  ultimately show ?thesis
    by (simp add: epoch_trace_def run_epoch_fields)
qed

lemma run_epoch_trace_load:
  "filter is_load (epoch_trace (fst (run_epoch ev cfg dev lg dl e))) = []"
proof -
  have "\<forall>it \<in> set (er_iterations (fst (run_epoch ev cfg dev lg dl e))). filter is_load it = []"
    unfolding run_epoch_fields
    by (metis batch_loop_nth in_set_conv_nth iteration_events_load)
  then have "filter is_load (concat (er_iterations (fst (run_epoch ev cfg dev lg dl e)))) = []"
    by (simp add: filter_concat)
  moreover have "filter is_load (er_close (fst (run_epoch ev cfg dev lg dl e))) = []"
    using run_epoch_close [of ev cfg dev lg dl e] by auto
  ultimately show ?thesis
    by (simp add: epoch_trace_def run_epoch_fields)
qed

lemma epochs_trace_group:
  "filter is_group (concat (map epoch_trace (epoch_runs (training_loop ev cfg)))) = []"
proof -
  have "\<forall>er \<in> set (epoch_runs (training_loop ev cfg)). filter is_group (epoch_trace er) = []"
    using run_epoch_trace_group by (metis run_member)
  then show ?thesis by (simp add: filter_concat)
qed

lemma epochs_trace_load:
  "filter is_load (concat (map epoch_trace (epoch_runs (training_loop ev cfg)))) = []"
proof -
  have "\<forall>er \<in> set (epoch_runs (training_loop ev cfg)). filter is_load (epoch_trace er) = []"
    using run_epoch_trace_load by (metis run_member)
  then show ?thesis by (simp add: filter_concat)
qed

lemma restore_epochs:
  "snd (restore ev lg) = (case stored_checkpoint ev of Some x \<Rightarrow> ck_epochs x | None \<Rightarrow> 0)"
  by (simp add: restore_def split: option.splits)

lemma restore_loads:
  "filter is_load (fst (restore ev lg)) =
     (case stored_checkpoint ev of
        Some x \<Rightarrow> [LoadStateDict Network (ck_network x), LoadStateDict Optimizer (ck_optimizer x),
                    LoadStateDict Scheduler (ck_scheduler x), LoadStateDict Scaler (ck_scaler x)]
      | None \<Rightarrow> [])"
  by (simp add: restore_def logger_info_def split: option.splits)

lemma restore_group: "filter is_group (fst (restore ev lg)) = []"
  by (simp add: restore_def logger_info_def split: option.splits)

lemma setup_loads:
  "filter is_load (setup_events (training_loop ev cfg)) =
     filter is_load (fst (restore ev (worker_logger cfg)))"
  by (simp add: training_loop_fields prepare_network_def setup_distributed_def logger_info_def)

lemma setup_group:
  "filter is_group (setup_events (training_loop ev cfg)) =
     (if rank cfg \<noteq> - 1 \<and> world_size cfg \<noteq> - 1
      then [InitProcessGroup (rank cfg) (world_size cfg)] else [])"
  by (simp add: training_loop_fields prepare_network_def setup_distributed_def logger_info_def
        restore_group)

subsection \<open>Resuming from a checkpoint\<close>

text \<open>
  Claim C2. The epochs the loop runs are an initial part of \<open>E + 1, \<dots>, E + N\<close>, where
  \<open>N\<close> is the configured number of epochs and \<open>E\<close> the epoch counter of the stored
  checkpoint (of \<open>1, \<dots>, N\<close> without a checkpoint), and all of them when the loop ends
  without an exception; so no epoch up to \<open>E\<close> is run again. With a checkpoint the states
  of network, optimizer, scheduler and scaler are reloaded from it, in this order, and
  nothing else is ever reloaded; the fifth field is the epoch counter the range starts
  from.
\<close>

theorem resume_epoch_range:
  "map er_epoch (epoch_runs (training_loop ev cfg)) =
     take (length (epoch_runs (training_loop ev cfg)))
       (case stored_checkpoint ev of
          Some x \<Rightarrow> [ck_epochs x + 1..ck_epochs x + epochs cfg]
        | None \<Rightarrow> [1..epochs cfg])
   \<and> (raised (training_loop ev cfg) = None \<longrightarrow>
        map er_epoch (epoch_runs (training_loop ev cfg)) =
          (case stored_checkpoint ev of
             Some x \<Rightarrow> [ck_epochs x + 1..ck_epochs x + epochs cfg]
           | None \<Rightarrow> [1..epochs cfg]))
   \<and> filter is_load (trace (training_loop ev cfg)) =
       (case stored_checkpoint ev of
          Some x \<Rightarrow> [LoadStateDict Network (ck_network x), LoadStateDict Optimizer (ck_optimizer x),
                      LoadStateDict Scheduler (ck_scheduler x), LoadStateDict Scaler (ck_scaler x)]
        | None \<Rightarrow> [])"
proof -
  let ?R = "training_loop ev cfg"
  let ?range = "case stored_checkpoint ev of
                  Some x \<Rightarrow> [ck_epochs x + 1..ck_epochs x + epochs cfg]
                | None \<Rightarrow> [1..epochs cfg]"
  let ?s = "snd (restore ev (worker_logger cfg))"
  have range: "py_range (?s + 1) (?s + epochs cfg + 1) = ?range"
    by (simp add: py_range_def restore_epochs split: option.splits)
  have prefix: "map er_epoch (epoch_runs ?R) = take (length (epoch_runs ?R)) ?range"
    using epoch_loop_epochs unfolding training_loop_fields range .
  have full: "map er_epoch (epoch_runs ?R) = ?range" if "raised ?R = None"
  proof -
    from that have "length (epoch_runs ?R) = length ?range"
      unfolding training_loop_fields range by (rule epoch_loop_complete)
    with prefix show ?thesis by simp
  qed
  have "filter is_load (final_events ?R) = []"
    by (simp add: training_loop_fields(4) split: option.splits)
  then have loads: "filter is_load (trace ?R) = filter is_load (fst (restore ev (worker_logger cfg)))"
    by (simp add: trace_def epochs_trace_load setup_loads)
  from prefix full loads show ?thesis
    by (simp only: restore_loads) blast
qed

theorem resume_epoch_range_witness:
  "raised (training_loop demo_env demo_cfg) = None
   \<and> stored_checkpoint demo_env
       = Some \<lparr>ck_network = 1, ck_optimizer = 2, ck_scheduler = 3, ck_scaler = 4, ck_epochs = 5\<rparr>
   \<and> epochs demo_cfg = 2
   \<and> map er_epoch (epoch_runs (training_loop demo_env demo_cfg)) = [6, 7]
   \<and> filter is_load (trace (training_loop demo_env demo_cfg)) =
       [LoadStateDict Network 1, LoadStateDict Optimizer 2, LoadStateDict Scheduler 3,
        LoadStateDict Scaler 4]"
proof -
  have r: "raised (training_loop demo_env demo_cfg) = None"
    by (simp add: demo_run)
  have c: "stored_checkpoint demo_env
       = Some \<lparr>ck_network = 1, ck_optimizer = 2, ck_scheduler = 3, ck_scaler = 4, ck_epochs = 5\<rparr>"
    by (simp add: demo_env_def)
  have e: "epochs demo_cfg = 2" by (simp add: demo_cfg_def)
  have u: "[6..7] = [6, 7::int]" by (simp add: upto.simps)
  note t = resume_epoch_range [of demo_env demo_cfg, unfolded c e option.case]
  have "map er_epoch (epoch_runs (training_loop demo_env demo_cfg)) =
     [ck_epochs \<lparr>ck_network = 1, ck_optimizer = 2, ck_scheduler = 3, ck_scaler = 4,
                 ck_epochs = 5\<rparr> + 1..
      ck_epochs \<lparr>ck_network = 1, ck_optimizer = 2, ck_scheduler = 3, ck_scaler = 4,
                 ck_epochs = 5\<rparr> + 2]"
    using t [THEN conjunct2, THEN conjunct1] r by (rule mp)
  then have m: "map er_epoch (epoch_runs (training_loop demo_env demo_cfg)) = [6, 7]"
    by (simp add: u)
  have l: "filter is_load (trace (training_loop demo_env demo_cfg)) =
       [LoadStateDict Network 1, LoadStateDict Optimizer 2, LoadStateDict Scheduler 3,
        LoadStateDict Scaler 4]"
    using t [THEN conjunct2, THEN conjunct2] by simp
  from r c e m l show ?thesis by blast
qed

lemma demo_first_epoch:
  "hd (epoch_runs (training_loop demo_env demo_cfg)) \<in> set (epoch_runs (training_loop demo_env demo_cfg))"
  by (simp add: demo_run)

lemma demo_worker_first_epoch:
  "hd (epoch_runs (training_loop demo_env demo_worker))
     \<in> set (epoch_runs (training_loop demo_env demo_worker))"
  by (simp add: demo_worker_run)

subsection \<open>Periodic checkpoints\<close>

text \<open>
  Claim C3. With a checkpoint interval \<open>k > 0\<close>, every epoch of a run has one iteration
  per batch of the loader, and iteration \<open>i\<close> (counted from zero) saves a checkpoint,
  once and tagged with its epoch, exactly when \<open>i mod k = 0\<close>; the other iterations save
  nothing.
\<close>

theorem checkpoint_interval_triggering:
  assumes "0 < checkpoint_interval cfg"
    and "er \<in> set (epoch_runs (training_loop ev cfg))"
    and "i < length (loader_batches ev (worker_loader cfg))"
  shows "length (er_iterations er) = length (loader_batches ev (worker_loader cfg))
     \<and> filter is_save (er_iterations er ! i) =
         (if int i mod checkpoint_interval cfg = 0
          then [SaveCheckpoint (model_name cfg) (er_epoch er)] else [])"
proof -
  from assms(1) have k: "checkpoint_interval cfg \<noteq> 0" by simp
  have len: "length (er_iterations er) = length (loader_batches ev (worker_loader cfg))"
    using assms(2) k by (rule run_iteration_count)
  with assms(3) have "i < length (er_iterations er)" by simp
  with assms(2) have "er_iterations er ! i =
      iteration_events cfg (worker_device cfg) (worker_logger cfg) (er_epoch er) i"
    by (rule run_iteration_nth)
  with len k show ?thesis by (simp add: iteration_events_save)
qed

theorem checkpoint_interval_triggering_witness:
  "0 < checkpoint_interval demo_cfg
   \<and> hd (epoch_runs (training_loop demo_env demo_cfg)) \<in> set (epoch_runs (training_loop demo_env demo_cfg))
   \<and> length (loader_batches demo_env (worker_loader demo_cfg)) = 3
   \<and> length (er_iterations (hd (epoch_runs (training_loop demo_env demo_cfg)))) = 3
   \<and> filter is_save (er_iterations (hd (epoch_runs (training_loop demo_env demo_cfg))) ! 0)
       = [SaveCheckpoint ''chatbot'' 6]
   \<and> filter is_save (er_iterations (hd (epoch_runs (training_loop demo_env demo_cfg))) ! 1) = []
   \<and> filter is_save (er_iterations (hd (epoch_runs (training_loop demo_env demo_cfg))) ! 2)
       = [SaveCheckpoint ''chatbot'' 6]"
proof -
  let ?er = "hd (epoch_runs (training_loop demo_env demo_cfg))"
  have k: "0 < checkpoint_interval demo_cfg" by (simp add: demo_cfg_def)
  have n: "length (loader_batches demo_env (worker_loader demo_cfg)) = 3"
    by (simp add: demo_env_def)
  have e: "er_epoch ?er = 6"
    by (simp add: demo_run)
  have m: "model_name demo_cfg = ''chatbot''" and c: "checkpoint_interval demo_cfg = 2"
    by (simp_all add: demo_cfg_def)
  have i0: "(0::nat) < length (loader_batches demo_env (worker_loader demo_cfg))"
    and i1: "(1::nat) < length (loader_batches demo_env (worker_loader demo_cfg))"
    and i2: "(2::nat) < length (loader_batches demo_env (worker_loader demo_cfg))"
    by (simp_all add: n)
  note a = checkpoint_interval_triggering [OF k demo_first_epoch i0, unfolded e m c n]
  note b = checkpoint_interval_triggering [OF k demo_first_epoch i1, unfolded e m c n]
  note d = checkpoint_interval_triggering [OF k demo_first_epoch i2, unfolded e m c n]
  from a have len: "length (er_iterations ?er) = 3" by (rule conjunct1)
  from a have s0: "filter is_save (er_iterations ?er ! 0) = [SaveCheckpoint ''chatbot'' 6]"
    by simp
  from b have s1: "filter is_save (er_iterations ?er ! 1) = []"
    by simp
  from d have s2: "filter is_save (er_iterations ?er ! 2) = [SaveCheckpoint ''chatbot'' 6]"
    by simp
  from k demo_first_epoch n len s0 s1 s2 show ?thesis by blast
qed

subsection \<open>The reporting worker\<close>

text \<open>
  Claim C4. \<open>is_main_process\<close> holds for the pair \<open>(-1, -1)\<close> and for the pairs
  \<open>(0, w)\<close> with \<open>w > 0\<close>, and for no other pair of integers.
\<close>

theorem is_main_process_iff:
  "is_main_process r w \<longleftrightarrow> (r, w) \<in> insert (- 1, - 1) {(0, v) | v. 0 < v}"
  by (auto simp add: is_main_process_def)

subsection \<open>Cadence of the learning-rate schedule\<close>

text \<open>
  Claim C5. In every epoch of a run each iteration of the batch loop steps the scheduler
  exactly once, and nothing else in the epoch does: the number of scheduler steps of the
  epoch is the number of its iterations, which is the number of batches of the loader
  (when the checkpoint interval is not zero, so that no iteration raises).
\<close>

theorem scheduler_step_per_batch:
  assumes "er \<in> set (epoch_runs (training_loop ev cfg))"
  shows "count_list (epoch_trace er) SchedulerStep = length (er_iterations er)
     \<and> (\<forall>it \<in> set (er_iterations er). count_list it SchedulerStep = 1)
     \<and> (checkpoint_interval cfg \<noteq> 0 \<longrightarrow>
          length (er_iterations er) = length (loader_batches ev (worker_loader cfg)))"
proof -
  have each: "\<forall>it \<in> set (er_iterations er). count_list it SchedulerStep = 1"
    using assms by (metis run_iteration_member iteration_events_sched)
  have conc: "count_list (concat xss) SchedulerStep = length xss"
    if "\<forall>it \<in> set xss. count_list it SchedulerStep = 1" for xss :: "event list list"
    using that by (induction xss) simp_all
  from assms obtain e where
    er: "er = fst (run_epoch ev cfg (worker_device cfg) (worker_logger cfg) (worker_loader cfg) e)"
    by (rule run_member)
  have "count_list (er_open er) SchedulerStep = 0"
    unfolding er run_epoch_fields by simp
  moreover have "count_list (er_close er) SchedulerStep = 0"
    using run_epoch_close [of ev cfg "worker_device cfg" "worker_logger cfg" "worker_loader cfg" e]
    unfolding er by auto
  ultimately have "count_list (epoch_trace er) SchedulerStep = length (er_iterations er)"
    by (simp add: epoch_trace_def conc [OF each])
  with each run_iteration_count [OF assms] show ?thesis by blast
qed

theorem scheduler_step_per_batch_witness:
  "hd (epoch_runs (training_loop demo_env demo_cfg)) \<in> set (epoch_runs (training_loop demo_env demo_cfg))
   \<and> checkpoint_interval demo_cfg \<noteq> 0
   \<and> length (loader_batches demo_env (worker_loader demo_cfg)) = 3
   \<and> count_list (epoch_trace (hd (epoch_runs (training_loop demo_env demo_cfg)))) SchedulerStep = 3"
proof -
  have k: "checkpoint_interval demo_cfg \<noteq> 0" by (simp add: demo_cfg_def)
  have n: "length (loader_batches demo_env (worker_loader demo_cfg)) = 3"
    by (simp add: demo_env_def)
  from scheduler_step_per_batch [OF demo_first_epoch] k n
  have "count_list (epoch_trace (hd (epoch_runs (training_loop demo_env demo_cfg)))) SchedulerStep = 3"
    by simp
  with demo_first_epoch k n show ?thesis by blast
qed

subsection \<open>Backward pass and optimizer step\<close>

text \<open>
  Claim C6. In every iteration of the batch loop of a run, the calls on loss, optimizer
  and scaler are, on a device of type \<open>cuda\<close>: backward on the scaled loss, the optimizer
  step through the scaler, the update of the scale, and then the clearing of the
  gradients; on any other device: backward on the loss, the optimizer step, and then the
  clearing of the gradients, with no call on the scaler.
\<close>

theorem backward_pass_by_device:
  assumes "er \<in> set (epoch_runs (training_loop ev cfg))"
    and "it \<in> set (er_iterations er)"
  shows "filter is_optim it =
           (if device_type (worker_device cfg) = ''cuda''
            then [ScaleBackward, ScalerStep, ScalerUpdate, ZeroGrad]
            else [LossBackward, OptimizerStep, ZeroGrad])"
proof -
  from assms obtain i where
    "it = iteration_events cfg (worker_device cfg) (worker_logger cfg) (er_epoch er) i"
    by (rule run_iteration_member)
  then show ?thesis by (simp only: iteration_events_optim)
qed

lemma demo_first_iteration:
  "hd (er_iterations (hd (epoch_runs (training_loop demo_env demo_cfg))))
     \<in> set (er_iterations (hd (epoch_runs (training_loop demo_env demo_cfg))))"
  by (simp add: demo_run)

lemma demo_worker_first_iteration:
  "hd (er_iterations (hd (epoch_runs (training_loop demo_env demo_worker))))
     \<in> set (er_iterations (hd (epoch_runs (training_loop demo_env demo_worker))))"
  by (simp add: demo_worker_run)

lemma demo_devices:
  "device_type (worker_device demo_cfg) = ''cpu''"
  "device_type (worker_device demo_worker) = ''cuda''"
  by (simp_all add: demo_cfg_def demo_worker_def select_device_def device_type_def)

theorem backward_pass_by_device_witness:
  "hd (epoch_runs (training_loop demo_env demo_cfg)) \<in> set (epoch_runs (training_loop demo_env demo_cfg))
   \<and> hd (er_iterations (hd (epoch_runs (training_loop demo_env demo_cfg))))
       \<in> set (er_iterations (hd (epoch_runs (training_loop demo_env demo_cfg))))
   \<and> device_type (worker_device demo_cfg) \<noteq> ''cuda''
   \<and> filter is_optim (hd (er_iterations (hd (epoch_runs (training_loop demo_env demo_cfg)))))
       = [LossBackward, OptimizerStep, ZeroGrad]
   \<and> hd (epoch_runs (training_loop demo_env demo_worker))
       \<in> set (epoch_runs (training_loop demo_env demo_worker))
   \<and> hd (er_iterations (hd (epoch_runs (training_loop demo_env demo_worker))))
       \<in> set (er_iterations (hd (epoch_runs (training_loop demo_env demo_worker))))
   \<and> device_type (worker_device demo_worker) = ''cuda''
   \<and> filter is_optim (hd (er_iterations (hd (epoch_runs (training_loop demo_env demo_worker)))))
       = [ScaleBackward, ScalerStep, ScalerUpdate, ZeroGrad]"
proof -
  have a: "filter is_optim (hd (er_iterations (hd (epoch_runs (training_loop demo_env demo_cfg)))))
       = [LossBackward, OptimizerStep, ZeroGrad]"
    using backward_pass_by_device [OF demo_first_epoch demo_first_iteration] by (simp add: demo_devices)
  have b: "filter is_optim (hd (er_iterations (hd (epoch_runs (training_loop demo_env demo_worker)))))
       = [ScaleBackward, ScalerStep, ScalerUpdate, ZeroGrad]"
    using backward_pass_by_device [OF demo_worker_first_epoch demo_worker_first_iteration]
    by (simp add: demo_devices)
  have c: "device_type (worker_device demo_cfg) \<noteq> ''cuda''"
    by (simp add: demo_devices)
  from a b c demo_devices(2) demo_first_epoch demo_first_iteration demo_worker_first_epoch
    demo_worker_first_iteration
  show ?thesis by blast
qed

subsection \<open>Length caps of the dataset\<close>

text \<open>
  Claim C7. The loader's dataset is built with the sentence cap \<open>max_seq_len div 4\<close>
  (floor division) and the passage cap \<open>max_seq_len\<close>, for every \<open>max_seq_len\<close>;
  \<open>max_seq_len = 16\<close> gives the caps 4 and 16; and the loop builds its loader this way.
\<close>

theorem dataset_length_caps:
  "max_sentence_length (dl_dataset (prepare_dataloader b n r w)) = n div 4
   \<and> max_context_length (dl_dataset (prepare_dataloader b n r w)) = n
   \<and> dl_dataset (prepare_dataloader b 16 r w)
       = \<lparr>max_context_length = 16, max_sentence_length = 4\<rparr>
   \<and> dl_dataset (worker_loader cfg)
       = CornellMovieDataset (max_seq_len cfg) (max_seq_len cfg div 4)"
  by (simp add: prepare_dataloader_def CornellMovieDataset_def)

subsection \<open>Checkpoints are saved by every worker\<close>

text \<open>
  Claim C8. Whatever rank and world size a worker runs with, iteration \<open>i\<close> of each of
  its epochs saves a checkpoint exactly when \<open>i mod k = 0\<close> (\<open>k\<close> the checkpoint
  interval, not zero), under the model name of the configuration: neither the interval
  nor the destination depends on the rank.
\<close>

theorem checkpoint_save_every_rank:
  assumes "checkpoint_interval cfg \<noteq> 0"
    and "er \<in> set (epoch_runs (training_loop ev (cfg\<lparr>rank := r, world_size := w\<rparr>)))"
    and "i < length (er_iterations er)"
  shows "filter is_save (er_iterations er ! i) =
           (if int i mod checkpoint_interval cfg = 0
            then [SaveCheckpoint (model_name cfg) (er_epoch er)] else [])"
proof -
  let ?cfg = "cfg\<lparr>rank := r, world_size := w\<rparr>"
  from assms(2,3) have "er_iterations er ! i =
      iteration_events ?cfg (worker_device ?cfg) (worker_logger ?cfg) (er_epoch er) i"
    by (rule run_iteration_nth)
  with assms(1) show ?thesis by (simp add: iteration_events_save)
qed

theorem checkpoint_save_every_rank_witness:
  "checkpoint_interval demo_cfg \<noteq> 0
   \<and> hd (epoch_runs (training_loop demo_env (demo_cfg\<lparr>rank := 1, world_size := 2\<rparr>)))
       \<in> set (epoch_runs (training_loop demo_env (demo_cfg\<lparr>rank := 1, world_size := 2\<rparr>)))
   \<and> 0 < length (er_iterations
                 (hd (epoch_runs (training_loop demo_env (demo_cfg\<lparr>rank := 1, world_size := 2\<rparr>)))))
   \<and> \<not> is_main_process 1 2
   \<and> filter is_save
        (er_iterations
           (hd (epoch_runs (training_loop demo_env (demo_cfg\<lparr>rank := 1, world_size := 2\<rparr>)))) ! 0)
       = [SaveCheckpoint ''chatbot'' 6]
   \<and> filter is_save
        (er_iterations (hd (epoch_runs (training_loop demo_env demo_cfg))) ! 0)
       = [SaveCheckpoint ''chatbot'' 6]"
proof -
  let ?er = "hd (epoch_runs (training_loop demo_env (demo_cfg\<lparr>rank := 1, world_size := 2\<rparr>)))"
  have k: "checkpoint_interval demo_cfg \<noteq> 0" by (simp add: demo_cfg_def)
  have mem: "?er \<in> set (epoch_runs (training_loop demo_env (demo_cfg\<lparr>rank := 1, world_size := 2\<rparr>)))"
    using demo_worker_first_epoch by (simp only: demo_worker_def)
  have len: "0 < length (er_iterations ?er)"
    using demo_worker_run by (simp add: demo_worker_def)
  have e: "er_epoch ?er = 6"
    using demo_worker_run by (simp add: demo_worker_def)
  have m: "model_name demo_cfg = ''chatbot''" and c: "checkpoint_interval demo_cfg = 2"
    by (simp_all add: demo_cfg_def)
  have s: "filter is_save (er_iterations ?er ! 0) = [SaveCheckpoint ''chatbot'' 6]"
    using checkpoint_save_every_rank [OF k mem len, unfolded e m c] by simp
  have n: "\<not> is_main_process 1 2" by (simp add: is_main_process_def)
  have t: "filter is_save (er_iterations (hd (epoch_runs (training_loop demo_env demo_cfg))) ! 0)
       = [SaveCheckpoint ''chatbot'' 6]"
    by (simp add: demo_run)
  from k mem len n s t show ?thesis by blast
qed

subsection \<open>Teardown of the process group\<close>

text \<open>
  Claim C9. When the epoch loop ends without an exception, the run ends with the export
  of the model followed by \<open>destroy_process_group\<close>. Over the whole run the calls on
  the process group are the initialisation followed by the teardown when both rank and
  world size differ from \<open>-1\<close>, and the teardown alone otherwise, in particular in
  single-process mode.
\<close>

theorem teardown_after_export:
  assumes "raised (training_loop ev cfg) = None"
  shows "final_events (training_loop ev cfg) = [SaveModel (model_name cfg), DestroyProcessGroup]
     \<and> filter is_group (trace (training_loop ev cfg)) =
         (if rank cfg \<noteq> - 1 \<and> world_size cfg \<noteq> - 1
          then [InitProcessGroup (rank cfg) (world_size cfg), DestroyProcessGroup]
          else [DestroyProcessGroup])"
proof -
  from assms have fin:
    "final_events (training_loop ev cfg) = [SaveModel (model_name cfg), DestroyProcessGroup]"
    by (simp add: training_loop_fields(4))
  then show ?thesis
    by (simp add: trace_def epochs_trace_group setup_group)
qed

theorem teardown_after_export_witness:
  "raised (training_loop demo_env demo_cfg) = None
   \<and> rank demo_cfg = - 1 \<and> world_size demo_cfg = - 1
   \<and> final_events (training_loop demo_env demo_cfg) = [SaveModel ''chatbot'', DestroyProcessGroup]
   \<and> filter is_group (trace (training_loop demo_env demo_cfg)) = [DestroyProcessGroup]"
proof -
  have r: "raised (training_loop demo_env demo_cfg) = None"
    by (simp add: demo_run)
  have c: "rank demo_cfg = - 1" "world_size demo_cfg = - 1" "model_name demo_cfg = ''chatbot''"
    by (simp_all add: demo_cfg_def)
  from teardown_after_export [OF r, unfolded c] r c show ?thesis by simp
qed

subsection \<open>The device of a worker\<close>

text \<open>
  Claim C10. The network is built on the device \<open>cuda:rank\<close> when the rank is not
  \<open>-1\<close>, whatever device is configured, and on the configured device when the rank is
  \<open>-1\<close>. With a rank other than \<open>-1\<close> the device has type \<open>cuda\<close>, and every forward
  pass runs with autocast enabled; with rank \<open>-1\<close> autocast follows the type of the
  configured device.
\<close>

theorem device_override_by_rank:
  "hd (setup_events (training_loop ev cfg)) =
     NewNetwork (AList.update ''num_embed'' (real (vocab_len ev)) (model_kwargs cfg))
       (if rank cfg = - 1 then device cfg else ''cuda:'' @ str_int (rank cfg))
   \<and> (rank cfg \<noteq> - 1 \<longrightarrow> device_type (worker_device cfg) = ''cuda'')
   \<and> (rank cfg \<noteq> - 1 \<longrightarrow>
        (\<forall>er \<in> set (epoch_runs (training_loop ev cfg)). \<forall>it \<in> set (er_iterations er).
           hd it = Forward True))
   \<and> (rank cfg = - 1 \<longrightarrow>
        (\<forall>er \<in> set (epoch_runs (training_loop ev cfg)). \<forall>it \<in> set (er_iterations er).
           hd it = Forward (device_type (device cfg) = ''cuda'')))"
proof -
  have dev: "worker_device cfg = (if rank cfg = - 1 then device cfg else ''cuda:'' @ str_int (rank cfg))"
    by (simp add: select_device_def)
  have first: "hd (setup_events (training_loop ev cfg)) =
     NewNetwork (AList.update ''num_embed'' (real (vocab_len ev)) (model_kwargs cfg))
       (worker_device cfg)"
    by (simp add: training_loop_fields(3) prepare_network_def)
  have ty: "device_type (worker_device cfg) = ''cuda''" if "rank cfg \<noteq> - 1"
    using that by (simp add: select_device_def device_type_def)
  have fw: "hd it = Forward (device_type (worker_device cfg) = ''cuda'')"
    if "er \<in> set (epoch_runs (training_loop ev cfg))" and "it \<in> set (er_iterations er)" for er it
  proof -
    from that obtain i where
      "it = iteration_events cfg (worker_device cfg) (worker_logger cfg) (er_epoch er) i"
      by (rule run_iteration_member)
    then show ?thesis by (simp add: iteration_events_def)
  qed
  from first have c1: "hd (setup_events (training_loop ev cfg)) =
     NewNetwork (AList.update ''num_embed'' (real (vocab_len ev)) (model_kwargs cfg))
       (if rank cfg = - 1 then device cfg else ''cuda:'' @ str_int (rank cfg))"
    by (simp only: dev)
  have c3: "rank cfg \<noteq> - 1 \<longrightarrow>
        (\<forall>er \<in> set (epoch_runs (training_loop ev cfg)). \<forall>it \<in> set (er_iterations er).
           hd it = Forward True)"
    using fw ty by simp
  have c4: "rank cfg = - 1 \<longrightarrow>
        (\<forall>er \<in> set (epoch_runs (training_loop ev cfg)). \<forall>it \<in> set (er_iterations er).
           hd it = Forward (device_type (device cfg) = ''cuda''))"
    using fw by (simp add: select_device_def)
  from c1 ty c3 c4 show ?thesis by blast
qed

theorem device_override_by_rank_witness:
  "rank demo_worker \<noteq> - 1 \<and> device demo_worker = ''cpu''
   \<and> hd (setup_events (training_loop demo_env demo_worker))
       = NewNetwork [(''num_embed'', 4)] ''cuda:1''
   \<and> hd (epoch_runs (training_loop demo_env demo_worker))
       \<in> set (epoch_runs (training_loop demo_env demo_worker))
   \<and> hd (er_iterations (hd (epoch_runs (training_loop demo_env demo_worker))))
       \<in> set (er_iterations (hd (epoch_runs (training_loop demo_env demo_worker))))
   \<and> hd (hd (er_iterations (hd (epoch_runs (training_loop demo_env demo_worker))))) = Forward True
   \<and> rank demo_cfg = - 1 \<and> device demo_cfg = ''cpu''
   \<and> hd (setup_events (training_loop demo_env demo_cfg)) = NewNetwork [(''num_embed'', 4)] ''cpu''"
proof -
  have r: "rank demo_worker \<noteq> - 1" and d: "device demo_worker = ''cpu''"
    by (simp_all add: demo_worker_def demo_cfg_def)
  have r': "rank demo_cfg = - 1" and d': "device demo_cfg = ''cpu''"
    by (simp_all add: demo_cfg_def)
  have kw: "AList.update ''num_embed'' (real (vocab_len demo_env)) (model_kwargs demo_worker)
            = [(''num_embed'', 4)]"
       "AList.update ''num_embed'' (real (vocab_len demo_env)) (model_kwargs demo_cfg)
            = [(''num_embed'', 4)]"
    by (simp_all add: demo_worker_def demo_cfg_def demo_env_def)
  have rk: "rank demo_worker = 1" by (simp add: demo_worker_def)
  note t = device_override_by_rank [of demo_env demo_worker]
  note u = device_override_by_rank [of demo_env demo_cfg]
  from t have a: "hd (setup_events (training_loop demo_env demo_worker))
       = NewNetwork [(''num_embed'', 4)] ''cuda:1''"
    by (simp add: kw rk str_int_1)
  from t r demo_worker_first_epoch demo_worker_first_iteration
  have b: "hd (hd (er_iterations (hd (epoch_runs (training_loop demo_env demo_worker))))) = Forward True"
    by blast
  from u have c: "hd (setup_events (training_loop demo_env demo_cfg)) = NewNetwork [(''num_embed'', 4)] ''cpu''"
    by (simp add: kw r' d')
  from r d a b c r' d' demo_worker_first_epoch demo_worker_first_iteration show ?thesis by blast
qed

subsection \<open>Loss and accuracy accumulators\<close>

text \<open>
  The loss of a batch is the loss over the positions whose expected label is not the
  padding index, and the three accumulators are advanced as follows.
\<close>

lemma cross_entropy_ignores_padding:
  "cross_entropy f p input target =
     cross_entropy f p (map fst (filter (\<lambda>(row, t). t \<noteq> p) (zip input target)))
                       (map snd (filter (\<lambda>(row, t). t \<noteq> p) (zip input target)))"
  by (simp add: cross_entropy_def zip_map_fst_snd)

lemma train_batch_metrics:
  assumes "checkpoint_interval cfg \<noteq> 0"
    and "y = network_out ev epoch i prompts (drop_last_column labels)
               \<lparr>tgt_mask = make_look_ahead_mask ev (size1 (drop_last_column labels)) dev,
                src_key_padding_mask = eq_scalar prompts (PAD_IDX ev),
                tgt_key_padding_mask = eq_scalar (drop_last_column labels) (PAD_IDX ev)\<rparr>"
  shows "\<exists>m'. snd (train_batch ev cfg dev lg epoch i (prompts, labels) m) = Inr m'
           \<and> num_correct m' = num_correct m + count_correct y (drop_first_column labels)
           \<and> num_total m' = num_total m + size0 prompts * size1 prompts
           \<and> total_loss m' = fadd (total_loss m)
                (cross_entropy (nll ev) (PAD_IDX ev) (concat y)
                   (concat (drop_first_column labels)))"
  using assms by (simp add: train_batch_def maybe_checkpoint_def Let_def)

text \<open>
  Claim C1, at one batch: one prompt of sixteen tokens, expected labels \<open>2, 3, PAD\<close>
  (decoder length three, one padding position), per-position losses \<open>1, 2, 1/4\<close>, every
  prediction equal to its expected label. The loss is \<open>(1 + 2) / 2\<close>: the padding
  position is left out. The counter of correct tokens is 3: the padding position is
  counted. The counter of tokens is 16, the number of prompt tokens, while the batch has
  three expected labels.
\<close>

theorem batch_metrics_at_padded_batch:
  "snd (train_batch demo_env demo_cfg (worker_device demo_cfg) (worker_logger demo_cfg) 6 0
          demo_batch \<lparr>num_correct = 0, num_total = 0, total_loss = Num 0\<rparr>)
     = Inr \<lparr>num_correct = 3, num_total = 16, total_loss = Num (3 / 2)\<rparr>
   \<and> drop_first_column (snd demo_batch) = [[2, 3, PAD_IDX demo_env]]
   \<and> size0 (drop_first_column (snd demo_batch)) * size1 (drop_first_column (snd demo_batch)) = 3
   \<and> map (\<lambda>(row, t). nll demo_env row t)
        (zip (concat demo_logits) (concat (drop_first_column (snd demo_batch)))) = [1, 2, 1 / 4]"
  by (simp add: train_batch_def demo_env_def demo_cfg_def demo_batch_def demo_logits_def
        drop_last_column_def drop_first_column_def eq_scalar_def cross_entropy_def fadd_def
        count_correct_def argmax_def size0_def size1_def backward_and_step_def device_type_def
        maybe_checkpoint_def logger_info_def INFO_def Let_def)

end
